theory Spec2Isabelle
  imports Complex_Main
begin

section \<open>The benchmark script \<^verbatim>\<open>solve_system_speed.py\<close>\<close>

text \<open>
  The script is modelled statement by statement. Its module-level names live in a map
  from names to values, so that evaluating a name that was never assigned is the
  \<open>NameError\<close> branch of the model. The objects it only calls (numpy's \<open>rand\<close> and
  \<open>solve\<close>, the class \<open>utb_derivative_system\<close>, \<open>timeit\<close>) are parameters.
\<close>

datatype 'x exn = NameError string | TypeError | ValueError | ZeroDivisionError | Raised 'x

datatype 'v pyval = PyNone | PyInt int | PyFloat real | Opaque 'v

text \<open>
  The module constants of lines 15 to 22. \<open>includeB\<close> is a Python bool, which the
  script tests by identity: for a bool, \<open>includeB is False\<close> is its negation and
  \<open>includeB is True\<close> is the value itself. Floats are idealised as reals.
\<close>

record settings =
  trials :: int
  includeB :: bool
  der :: int
  N :: int
  ds :: int
  dc :: int

definition script_settings :: settings where
  "script_settings = \<lparr>trials = 100, includeB = True, der = 2, N = 100, ds = 8, dc = 3\<rparr>"

text \<open>
  What the script imports. \<open>'w\<close> is the state of everything the script cannot
  control (the random generator and the clock); \<open>'v\<close> are the values it never looks
  into (arrays and \<open>utb_derivative_system\<close> objects); \<open>'x\<close> are the exceptions those
  callees may raise.
\<close>

record ('x, 'v, 'w) externals =
  rand :: "int list \<Rightarrow> 'w \<Rightarrow> 'v \<times> 'w"
  utb_derivative_system :: "'v pyval \<Rightarrow> 'v pyval \<Rightarrow> 'v pyval \<Rightarrow> int \<Rightarrow> 'x + 'v"
  matrixformfull :: "'v pyval \<Rightarrow> 'x + 'v"
  obj_solve :: "'v pyval \<Rightarrow> 'v pyval \<Rightarrow> 'x + 'v"
  solve :: "'v pyval \<Rightarrow> 'v pyval \<Rightarrow> 'x + 'v"
  elapsed :: "'w \<Rightarrow> real \<times> 'w"

text \<open>
  \<open>ctor_calls\<close> counts the calls that reached \<open>utb_derivative_system\<close>; \<open>stdout\<close>
  collects what \<open>print\<close> was given, as a label and the number after it.
\<close>

record ('v, 'w) state =
  globals :: "string \<rightharpoonup> 'v pyval"
  world :: 'w
  ctor_calls :: nat
  stdout :: "(string \<times> real) list"

type_synonym ('x, 'v, 'w) expr = "('v, 'w) state \<Rightarrow> ('x exn + 'v pyval) \<times> ('v, 'w) state"
type_synonym ('x, 'v, 'w) stmt = "('v, 'w) state \<Rightarrow> 'x exn option \<times> ('v, 'w) state"

subsection \<open>Expressions\<close>

definition name :: "string \<Rightarrow> ('x, 'v, 'w) expr" where
  "name n s = (case globals s n of None \<Rightarrow> (Inl (NameError n), s) | Some v \<Rightarrow> (Inr v, s))"

definition const :: "'v pyval \<Rightarrow> ('x, 'v, 'w) expr" where
  "const v s = (Inr v, s)"

text \<open>Arguments are evaluated left to right; the first exception ends the evaluation.\<close>

fun args :: "('x, 'v, 'w) expr list \<Rightarrow> ('v, 'w) state \<Rightarrow> ('x exn + 'v pyval list) \<times> ('v, 'w) state" where
  "args [] s = (Inr [], s)"
| "args (e # es) s =
     (case e s of
        (Inl x, s') \<Rightarrow> (Inl x, s')
      | (Inr v, s') \<Rightarrow>
          (case args es s' of
             (Inl x, s'') \<Rightarrow> (Inl x, s'')
           | (Inr vs, s'') \<Rightarrow> (Inr (v # vs), s'')))"

text \<open>A call evaluates its arguments, then enters the callee.\<close>

definition call ::
  "('v pyval list \<Rightarrow> ('x, 'v, 'w) expr) \<Rightarrow> ('x, 'v, 'w) expr list \<Rightarrow> ('x, 'v, 'w) expr" where
  "call f es s = (case args es s of (Inl x, s') \<Rightarrow> (Inl x, s') | (Inr vs, s') \<Rightarrow> f vs s')"

definition lift_result :: "'x + 'v \<Rightarrow> 'x exn + 'v pyval" where
  "lift_result r = (case r of Inl x \<Rightarrow> Inl (Raised x) | Inr v \<Rightarrow> Inr (Opaque v))"

text \<open>\<open>rand(d0, d1, ...)\<close>: numpy refuses a negative dimension.\<close>

definition call_rand :: "('x, 'v, 'w) externals \<Rightarrow> int list \<Rightarrow> ('x, 'v, 'w) expr" where
  "call_rand ext dims s =
     (if \<exists>d \<in> set dims. d < 0 then (Inl ValueError, s)
      else (case rand ext dims (world s) of (a, w') \<Rightarrow> (Inr (Opaque a), s\<lparr>world := w'\<rparr>)))"

text \<open>\<open>utb_derivative_system(G, A, B, deriv = d)\<close>, entered once the arguments have values.\<close>

definition construct :: "('x, 'v, 'w) externals \<Rightarrow> int \<Rightarrow> 'v pyval list \<Rightarrow> ('x, 'v, 'w) expr" where
  "construct ext d vs s =
     (case vs of
        [g, a, b] \<Rightarrow>
          (lift_result (utb_derivative_system ext g a b d), s\<lparr>ctor_calls := Suc (ctor_calls s)\<rparr>)
      | _ \<Rightarrow> (Inl TypeError, s))"

definition method_matrixformfull :: "('x, 'v, 'w) externals \<Rightarrow> 'v pyval list \<Rightarrow> ('x, 'v, 'w) expr" where
  "method_matrixformfull ext vs s =
     (case vs of [ob] \<Rightarrow> (lift_result (matrixformfull ext ob), s) | _ \<Rightarrow> (Inl TypeError, s))"

definition method_solve :: "('x, 'v, 'w) externals \<Rightarrow> 'v pyval list \<Rightarrow> ('x, 'v, 'w) expr" where
  "method_solve ext vs s =
     (case vs of [ob, rhs] \<Rightarrow> (lift_result (obj_solve ext ob rhs), s) | _ \<Rightarrow> (Inl TypeError, s))"

definition numpy_solve :: "('x, 'v, 'w) externals \<Rightarrow> 'v pyval list \<Rightarrow> ('x, 'v, 'w) expr" where
  "numpy_solve ext vs s =
     (case vs of [a, b] \<Rightarrow> (lift_result (solve ext a b), s) | _ \<Rightarrow> (Inl TypeError, s))"

text \<open>
  \<open>timeit(stmt, number=1, globals=globals())\<close> runs the statement once against the
  module's names, drops its value and returns the seconds it took.
\<close>

definition timeit :: "('x, 'v, 'w) externals \<Rightarrow> ('x, 'v, 'w) expr \<Rightarrow> ('x, 'v, 'w) expr" where
  "timeit ext e s =
     (case e s of
        (Inl x, s') \<Rightarrow> (Inl x, s')
      | (Inr _, s') \<Rightarrow>
          (case elapsed ext (world s') of (t, w') \<Rightarrow> (Inr (PyFloat t), s'\<lparr>world := w'\<rparr>)))"

definition to_real :: "'v pyval \<Rightarrow> real option" where
  "to_real v = (case v of PyFloat x \<Rightarrow> Some x | PyInt i \<Rightarrow> Some (real_of_int i) | _ \<Rightarrow> None)"

definition add :: "('x, 'v, 'w) expr \<Rightarrow> ('x, 'v, 'w) expr \<Rightarrow> ('x, 'v, 'w) expr" where
  "add e1 e2 s =
     (case args [e1, e2] s of
        (Inl x, s') \<Rightarrow> (Inl x, s')
      | (Inr vs, s') \<Rightarrow>
          (case map to_real vs of
             [Some a, Some b] \<Rightarrow> (Inr (PyFloat (a + b)), s')
           | _ \<Rightarrow> (Inl TypeError, s')))"

definition divide_expr :: "('x, 'v, 'w) expr \<Rightarrow> ('x, 'v, 'w) expr \<Rightarrow> ('x, 'v, 'w) expr" where
  "divide_expr e1 e2 s =
     (case args [e1, e2] s of
        (Inl x, s') \<Rightarrow> (Inl x, s')
      | (Inr vs, s') \<Rightarrow>
          (case map to_real vs of
             [Some a, Some b] \<Rightarrow>
               (if b = 0 then (Inl ZeroDivisionError, s') else (Inr (PyFloat (a / b)), s'))
           | _ \<Rightarrow> (Inl TypeError, s')))"

subsection \<open>Statements\<close>

definition skip :: "('x, 'v, 'w) stmt" where
  "skip s = (None, s)"

definition assign :: "string \<Rightarrow> ('x, 'v, 'w) expr \<Rightarrow> ('x, 'v, 'w) stmt" where
  "assign n e s =
     (case e s of
        (Inl x, s') \<Rightarrow> (Some x, s')
      | (Inr v, s') \<Rightarrow> (None, s'\<lparr>globals := (globals s')(n \<mapsto> v)\<rparr>))"

fun block :: "('x, 'v, 'w) stmt list \<Rightarrow> ('x, 'v, 'w) stmt" where
  "block [] s = (None, s)"
| "block (c # cs) s = (case c s of (None, s') \<Rightarrow> block cs s' | (Some x, s') \<Rightarrow> (Some x, s'))"

text \<open>\<open>for k in range(n)\<close>: the loop variable is bound before each round.\<close>

fun for_in :: "string \<Rightarrow> int list \<Rightarrow> ('x, 'v, 'w) stmt \<Rightarrow> ('x, 'v, 'w) stmt" where
  "for_in k [] body s = (None, s)"
| "for_in k (i # is) body s =
     (case body (s\<lparr>globals := (globals s)(k \<mapsto> PyInt i)\<rparr>) of
        (None, s') \<Rightarrow> for_in k is body s'
      | (Some x, s') \<Rightarrow> (Some x, s'))"

definition range :: "int \<Rightarrow> int list" where
  "range n = map int [0..<nat n]"

definition print :: "string \<Rightarrow> ('x, 'v, 'w) expr \<Rightarrow> ('x, 'v, 'w) stmt" where
  "print label e s =
     (case e s of
        (Inl x, s') \<Rightarrow> (Some x, s')
      | (Inr v, s') \<Rightarrow>
          (case to_real v of
             Some r \<Rightarrow> (None, s'\<lparr>stdout := stdout s' @ [(label, r)]\<rparr>)
           | None \<Rightarrow> (Some TypeError, s')))"

subsection \<open>The script\<close>

text \<open>Lines 34 to 39: an \<open>if\<close> with an \<open>elif\<close> and no \<open>else\<close>.\<close>

definition assign_B :: "('x, 'v, 'w) externals \<Rightarrow> settings \<Rightarrow> ('x, 'v, 'w) stmt" where
  "assign_B ext cfg =
     (if der cfg = 1 \<or> \<not> includeB cfg then
        block [assign ''B1'' (const PyNone), assign ''B2'' (const PyNone)]
      else if der cfg = 2 \<and> includeB cfg then
        block [assign ''B1'' (call_rand ext [N cfg, dc cfg, dc cfg, ds cfg, ds cfg]),
               assign ''B2'' (call_rand ext [N cfg, dc cfg, dc cfg, ds cfg, ds cfg])]
      else skip)"

text \<open>Lines 29 to 47, one round of the loop.\<close>

definition loop_body :: "('x, 'v, 'w) externals \<Rightarrow> settings \<Rightarrow> ('x, 'v, 'w) stmt" where
  "loop_body ext cfg =
     block [
       assign ''G1'' (call_rand ext [N cfg, ds cfg, ds cfg]),
       assign ''G2'' (call_rand ext [N cfg, ds cfg, ds cfg]),
       assign ''A1'' (call_rand ext [dc cfg, ds cfg, ds cfg]),
       assign ''A2'' (call_rand ext [dc cfg, ds cfg, ds cfg]),
       assign_B ext cfg,
       assign ''obj1'' (call (construct ext (der cfg)) [name ''G1'', name ''A1'', name ''B1'']),
       assign ''obj2'' (call (construct ext (der cfg)) [name ''G2'', name ''A2'', name ''B2'']),
       assign ''mat1'' (call (method_matrixformfull ext) [name ''obj1'']),
       assign ''mat2'' (call (method_matrixformfull ext) [name ''obj2'']),
       assign ''objtime''
         (add (name ''objtime'') (timeit ext (call (method_solve ext) [name ''obj1'', name ''obj2'']))),
       assign ''mattime''
         (add (name ''mattime'') (timeit ext (call (numpy_solve ext) [name ''mat1'', name ''mat2''])))]"

text \<open>Lines 24 to 52, run from the names a fresh interpreter has after the imports.\<close>

definition script :: "('x, 'v, 'w) externals \<Rightarrow> settings \<Rightarrow> ('x, 'v, 'w) stmt" where
  "script ext cfg =
     block [
       assign ''objtime'' (const (PyFloat 0)),
       assign ''mattime'' (const (PyFloat 0)),
       for_in ''k'' (range (trials cfg)) (loop_body ext cfg),
       print ''obj time: '' (divide_expr (name ''objtime'') (const (PyInt (trials cfg)))),
       print ''mat time: '' (divide_expr (name ''mattime'') (const (PyInt (trials cfg)))),
       print ''ratio: '' (divide_expr (name ''mattime'') (name ''objtime''))]"

definition fresh :: "'w \<Rightarrow> ('v, 'w) state" where
  "fresh w = \<lparr>globals = Map.empty, world = w, ctor_calls = 0, stdout = []\<rparr>"

definition run :: "('x, 'v, 'w) externals \<Rightarrow> settings \<Rightarrow> 'w \<Rightarrow> 'x exn option \<times> ('v, 'w) state" where
  "run ext cfg w = script ext cfg (fresh w)"

text \<open>
  Externals for a concrete run: arrays and objects carry no data, and the class
  refuses a derivative order other than 1 and 2 once it is entered.
\<close>

definition stub_externals :: "(string, unit, unit) externals" where
  "stub_externals =
     \<lparr>rand = (\<lambda>dims w. ((), w)),
      utb_derivative_system =
        (\<lambda>g a b d. if d = 1 \<or> d = 2 then Inr () else Inl ''InvalidConfiguration''),
      matrixformfull = (\<lambda>ob. Inr ()),
      obj_solve = (\<lambda>ob rhs. Inr ()),
      solve = (\<lambda>a b. Inr ()),
      elapsed = (\<lambda>w. (1, w))\<rparr>"

section \<open>The structured system, as the specification describes it\<close>

text \<open>
  The script imports the class \<open>utb_derivative_system\<close> from a module that is not
  among the sources. What follows is written from the specification's data model
  (section 3) and from its contract of \<open>matrixformfull\<close> (section 4.2).
\<close>

type_synonym 'a matrix = "'a list list"

text \<open>
  Modelled from the spec: the Structured System of section 3, the aggregate of
  \<open>G\<close>, \<open>A\<close>, the optional \<open>B\<close>, the Derivative-Order and \<open>N\<close>, \<open>ds\<close>, \<open>dc\<close>
  (the class \<open>utb_derivative_system\<close> is missing). A block is a list of rows.
\<close>

record 'a structured_system =
  sys_G :: "'a matrix list"
  sys_A :: "'a matrix list"
  sys_B :: "'a matrix list list list option"
  sys_deriv :: int
  sys_N :: nat
  sys_ds :: nat
  sys_dc :: nat

definition is_block :: "nat \<Rightarrow> 'a matrix \<Rightarrow> bool" where
  "is_block d b = (length b = d \<and> list_all (\<lambda>row. length row = d) b)"

text \<open>
  Modelled from the spec: the invariant of section 3 (the validation of
  \<open>utb_derivative_system.__init__\<close> is missing). \<open>G\<close> has exactly \<open>N\<close> entries and
  \<open>A\<close> exactly \<open>dc\<close>, all of shape \<open>ds \<times> ds\<close>; \<open>B\<close>, if present, has
  \<open>N \<sqdot> dc \<sqdot> dc\<close> entries of that shape and comes with Derivative-Order 2.
\<close>

definition structured_system_inv :: "'a structured_system \<Rightarrow> bool" where
  "structured_system_inv M =
     (sys_deriv M \<in> {1, 2} \<and>
      length (sys_G M) = sys_N M \<and> list_all (is_block (sys_ds M)) (sys_G M) \<and>
      length (sys_A M) = sys_dc M \<and> list_all (is_block (sys_ds M)) (sys_A M) \<and>
      (case sys_B M of
         None \<Rightarrow> True
       | Some b \<Rightarrow>
           sys_deriv M = 2 \<and> length b = sys_N M \<and>
           list_all (\<lambda>bi. length bi = sys_dc M \<and>
             list_all (\<lambda>bij. length bij = sys_dc M \<and> list_all (is_block (sys_ds M)) bij) bi) b))"

text \<open>
  Modelled from the spec: one entry of the dense form of section 4.2
  (\<open>utb_derivative_system.matrixformfull\<close> is missing). Rows and columns below
  \<open>N \<sqdot> ds\<close> are the block-diagonal core: block \<open>(i, i)\<close> is \<open>G\<^sub>i\<close>, the other
  local blocks are zero. The specification leaves the rule that fills the border and
  the global block open (section 9), so those entries are the parameter \<open>coupling\<close>.
  Positions count from 0 here, where the specification counts local indices from 1.
\<close>

definition dense_entry ::
  "('a::zero structured_system \<Rightarrow> nat \<Rightarrow> nat \<Rightarrow> 'a) \<Rightarrow> 'a structured_system \<Rightarrow> nat \<Rightarrow> nat \<Rightarrow> 'a" where
  "dense_entry coupling M r c =
     (if r < sys_N M * sys_ds M \<and> c < sys_N M * sys_ds M then
        (if r div sys_ds M = c div sys_ds M
         then sys_G M ! (r div sys_ds M) ! (r mod sys_ds M) ! (c mod sys_ds M)
         else 0)
      else coupling M r c)"

text \<open>
  Modelled from the spec: \<open>matrixformfull\<close> of section 4.2, the single dense matrix
  with \<open>N \<sqdot> ds + dc \<sqdot> ds\<close> rows and columns (the method is missing).
\<close>

definition matrixformfull_model ::
  "('a::zero structured_system \<Rightarrow> nat \<Rightarrow> nat \<Rightarrow> 'a) \<Rightarrow> 'a structured_system \<Rightarrow> 'a matrix" where
  "matrixformfull_model coupling M =
     (let n = sys_N M * sys_ds M + sys_dc M * sys_ds M
      in map (\<lambda>r. map (\<lambda>c. dense_entry coupling M r c) [0..<n]) [0..<n])"

text \<open>The \<open>d \<times> d\<close> block in block row \<open>i\<close> and block column \<open>j\<close> of a matrix.\<close>

definition block_at :: "nat \<Rightarrow> nat \<Rightarrow> nat \<Rightarrow> 'a matrix \<Rightarrow> 'a matrix" where
  "block_at d i j m = map (\<lambda>row. take d (drop (j * d) row)) (take d (drop (i * d) m))"

text \<open>
  The system of the specification's first concrete scenario: \<open>N = 2\<close>, \<open>ds = 2\<close>,
  \<open>dc = 1\<close>, two identity blocks, \<open>A = [0.5 \<sqdot> I]\<close>, Derivative-Order 1 and no \<open>B\<close>.
\<close>

definition scenario_system :: "rat structured_system" where
  "scenario_system =
     \<lparr>sys_G = [[[1, 0], [0, 1]], [[1, 0], [0, 1]]],
      sys_A = [[[1 / 2, 0], [0, 1 / 2]]],
      sys_B = None,
      sys_deriv = 1,
      sys_N = 2, sys_ds = 2, sys_dc = 1\<rparr>"

section \<open>Properties of the script\<close>

lemma assign_rand_ok:
  "\<forall>d \<in> set dims. 0 \<le> d \<Longrightarrow>
   assign n (call_rand ext dims) s =
     (None, s\<lparr>world := snd (rand ext dims (world s)),
              globals := (globals s)(n \<mapsto> Opaque (fst (rand ext dims (world s))))\<rparr>)"
  by (auto simp: assign_def call_rand_def split: prod.splits)

lemma range_pos: "0 < n \<Longrightarrow> range n = 0 # map int [1..<nat n]"
  by (simp add: range_def upt_conv_Cons)

lemma assign_B_skip:
  "der cfg \<noteq> 1 \<Longrightarrow> der cfg \<noteq> 2 \<Longrightarrow> includeB cfg \<Longrightarrow> assign_B ext cfg = skip"
  by (simp add: assign_B_def)

text \<open>
  With \<open>der = 1\<close>, or with \<open>includeB\<close> switched off, the script hands \<open>None\<close> to the
  class as \<open>B\<close>.
\<close>

lemma assign_B_none:
  "der cfg = 1 \<or> \<not> includeB cfg \<Longrightarrow>
   assign_B ext cfg s = (None, s\<lparr>globals := (globals s)(''B1'' \<mapsto> PyNone, ''B2'' \<mapsto> PyNone)\<rparr>)"
  by (simp add: assign_B_def assign_def const_def)

text \<open>
  The third argument of the call is a name without a value: the call ends there, and
  the class is not entered.
\<close>

lemma construct_unbound:
  "globals s b = None \<Longrightarrow> globals s g = Some vg \<Longrightarrow> globals s a = Some va \<Longrightarrow>
   assign n (call (construct ext d) [name g, name a, name b]) s = (Some (NameError b), s)"
  by (simp add: assign_def call_def name_def)

lemma loop_body_unbound:
  assumes "der cfg \<noteq> 1" "der cfg \<noteq> 2" "includeB cfg"
    and "0 \<le> N cfg" "0 \<le> ds cfg" "0 \<le> dc cfg"
    and "globals s ''B1'' = None"
  shows "\<exists>s'. loop_body ext cfg s = (Some (NameError ''B1''), s')
     \<and> globals s' ''B1'' = None \<and> globals s' ''B2'' = globals s ''B2''
     \<and> ctor_calls s' = ctor_calls s"
  using assms
  by (simp add: loop_body_def assign_rand_ok assign_B_skip skip_def construct_unbound)

text \<open>
  Claim C10. With \<open>includeB = True\<close> and a \<open>der\<close> that is neither 1 nor 2 (the other
  constants as in the script), neither branch of the conditional of lines 34 to 39
  runs: the run ends with \<open>NameError\<close> for \<open>B1\<close> at line 41, \<open>B1\<close> and \<open>B2\<close> are still
  without a value, and \<open>utb_derivative_system\<close> was not entered, so that no check of
  the class could report anything. This holds for every behaviour of the imported
  callees.
\<close>

theorem unbound_B_raises_NameError:
  fixes ext :: "('x, 'v, 'w) externals" and w :: 'w
  assumes "d \<noteq> 1" and "d \<noteq> 2"
  shows "fst (run ext (script_settings\<lparr>der := d, includeB := True\<rparr>) w) = Some (NameError ''B1'') \<and>
         globals (snd (run ext (script_settings\<lparr>der := d, includeB := True\<rparr>) w)) ''B1'' = None \<and>
         globals (snd (run ext (script_settings\<lparr>der := d, includeB := True\<rparr>) w)) ''B2'' = None \<and>
         ctor_calls (snd (run ext (script_settings\<lparr>der := d, includeB := True\<rparr>) w)) = 0"
proof -
  let ?cfg = "script_settings\<lparr>der := d, includeB := True\<rparr>"
  let ?s0 = "(fresh w :: ('v, 'w) state)\<lparr>globals :=
     [''objtime'' \<mapsto> PyFloat 0, ''mattime'' \<mapsto> PyFloat 0, ''k'' \<mapsto> PyInt 0]\<rparr>"
  have cfg: "der ?cfg \<noteq> 1" "der ?cfg \<noteq> 2" "includeB ?cfg"
    "0 \<le> N ?cfg" "0 \<le> ds ?cfg" "0 \<le> dc ?cfg" "0 < trials ?cfg"
    using assms by (simp_all add: script_settings_def)
  have "globals ?s0 ''B1'' = None" "globals ?s0 ''B2'' = None" "ctor_calls ?s0 = 0"
    by (simp_all add: fresh_def)
  with loop_body_unbound [OF cfg(1-6), of ?s0 ext]
  obtain s' where s': "loop_body ext ?cfg ?s0 = (Some (NameError ''B1''), s')"
    "globals s' ''B1'' = None" "globals s' ''B2'' = None" "ctor_calls s' = 0"
    by auto
  have "run ext ?cfg w = (Some (NameError ''B1''), s')"
    using s'(1) cfg(7)
    by (simp add: run_def script_def assign_def const_def range_pos fresh_def)
  with s' show ?thesis by simp
qed

theorem unbound_B_raises_NameError_witness:
  "(3::int) \<noteq> 1 \<and> (3::int) \<noteq> 2 \<and>
   utb_derivative_system stub_externals PyNone PyNone PyNone 3 = Inl ''InvalidConfiguration'' \<and>
   fst (run stub_externals (script_settings\<lparr>der := 3, includeB := True\<rparr>) ()) = Some (NameError ''B1'') \<and>
   ctor_calls (snd (run stub_externals (script_settings\<lparr>der := 3, includeB := True\<rparr>) ())) = 0"
  using unbound_B_raises_NameError [of 3 stub_externals "()"]
  by (simp add: stub_externals_def)

section \<open>Properties of the dense form\<close>

lemma block_index: "i < n \<Longrightarrow> r < d \<Longrightarrow> i * d + r < n * (d::nat)"
proof -
  assume a: "i < n" "r < d"
  then have "i * d + r < i * d + d" by simp
  also have "\<dots> = Suc i * d" by simp
  also have "\<dots> \<le> n * d" using a(1) by (intro mult_le_mono1) simp
  finally show ?thesis .
qed

lemma block_fits: "i < n \<Longrightarrow> (i + 1) * d \<le> n * d + k * (d::nat)"
proof -
  assume "i < n"
  then have "(i + 1) * d \<le> n * d" by (intro mult_le_mono1) simp
  then show ?thesis by simp
qed

lemma block_at_length: "(i + 1) * d \<le> length m \<Longrightarrow> length (block_at d i j m) = d"
  by (simp add: block_at_def)

lemma block_at_row_length:
  assumes "(i + 1) * d \<le> length m" "r < d" "(j + 1) * d \<le> length (m ! (i * d + r))"
  shows "length (block_at d i j m ! r) = d"
  using assms by (simp add: block_at_def)

lemma block_at_nth:
  assumes "(i + 1) * d \<le> length m" "r < d" "(j + 1) * d \<le> length (m ! (i * d + r))" "c < d"
  shows "block_at d i j m ! r ! c = m ! (i * d + r) ! (j * d + c)"
  using assms by (simp add: block_at_def)

lemma matrixformfull_length:
  "length (matrixformfull_model cp M) = sys_N M * sys_ds M + sys_dc M * sys_ds M"
  by (simp add: matrixformfull_model_def Let_def)

lemma matrixformfull_row:
  "r < sys_N M * sys_ds M + sys_dc M * sys_ds M \<Longrightarrow>
   matrixformfull_model cp M ! r =
     map (\<lambda>c. dense_entry cp M r c) [0..<sys_N M * sys_ds M + sys_dc M * sys_ds M]"
  by (simp add: matrixformfull_model_def Let_def)

lemma dense_entry_diag:
  assumes "i < sys_N M" "r < sys_ds M" "c < sys_ds M"
  shows "dense_entry cp M (i * sys_ds M + r) (i * sys_ds M + c) = sys_G M ! i ! r ! c"
  using assms by (simp add: dense_entry_def block_index)

text \<open>
  Claim C2. For a Structured System that meets the invariant of section 3,
  \<open>matrixformfull\<close> gives one square matrix with \<open>N \<sqdot> ds + dc \<sqdot> ds\<close> rows, each of
  that length, and its diagonal block \<open>(i, i)\<close> is \<open>G\<^sub>i\<close> for every local index
  (counted from 0), whatever rule fills the border and the global block.
\<close>

theorem matrixformfull_square_diag:
  assumes inv: "structured_system_inv M"
  shows "length (matrixformfull_model cp M) = sys_N M * sys_ds M + sys_dc M * sys_ds M \<and>
         (\<forall>row \<in> set (matrixformfull_model cp M).
            length row = sys_N M * sys_ds M + sys_dc M * sys_ds M) \<and>
         (\<forall>i < sys_N M. block_at (sys_ds M) i i (matrixformfull_model cp M) = sys_G M ! i)"
proof (intro conjI ballI allI impI)
  show "length (matrixformfull_model cp M) = sys_N M * sys_ds M + sys_dc M * sys_ds M"
    by (rule matrixformfull_length)
next
  fix row assume "row \<in> set (matrixformfull_model cp M)"
  then show "length row = sys_N M * sys_ds M + sys_dc M * sys_ds M"
    by (auto simp: matrixformfull_model_def Let_def)
next
  fix i assume i: "i < sys_N M"
  let ?d = "sys_ds M" and ?n = "sys_N M * sys_ds M + sys_dc M * sys_ds M"
  let ?m = "matrixformfull_model cp M"
  have G: "is_block ?d (sys_G M ! i)"
    using inv i by (simp add: structured_system_inv_def list_all_length)
  have rows: "(i + 1) * ?d \<le> length ?m"
    using block_fits [OF i] by (simp add: matrixformfull_length)
  have row: "?m ! (i * ?d + r) = map (\<lambda>c. dense_entry cp M (i * ?d + r) c) [0..<?n]"
    if "r < ?d" for r
    using that i block_index [of i "sys_N M" r ?d] by (intro matrixformfull_row) simp
  have cols: "(i + 1) * ?d \<le> length (?m ! (i * ?d + r))" if "r < ?d" for r
    using rows row [OF that] by (simp add: matrixformfull_length)
  show "block_at ?d i i ?m = sys_G M ! i"
  proof (rule nth_equalityI)
    show "length (block_at ?d i i ?m) = length (sys_G M ! i)"
      using G rows by (simp add: block_at_length is_block_def)
  next
    fix r assume "r < length (block_at ?d i i ?m)"
    then have r: "r < ?d" using rows by (simp add: block_at_length)
    show "block_at ?d i i ?m ! r = sys_G M ! i ! r"
    proof (rule nth_equalityI)
      show "length (block_at ?d i i ?m ! r) = length (sys_G M ! i ! r)"
        using G r rows cols [OF r]
        by (simp add: block_at_row_length is_block_def list_all_length)
    next
      fix c assume "c < length (block_at ?d i i ?m ! r)"
      then have c: "c < ?d" using r rows cols [OF r] by (simp add: block_at_row_length)
      have "block_at ?d i i ?m ! r ! c = ?m ! (i * ?d + r) ! (i * ?d + c)"
        using rows r cols [OF r] c by (rule block_at_nth)
      also have "\<dots> = dense_entry cp M (i * ?d + r) (i * ?d + c)"
        using row [OF r] i c block_index [of i "sys_N M" c ?d] by simp
      also have "\<dots> = sys_G M ! i ! r ! c"
        using i r c by (rule dense_entry_diag)
      finally show "block_at ?d i i ?m ! r ! c = sys_G M ! i ! r ! c" .
    qed
  qed
qed

theorem matrixformfull_square_diag_witness:
  "structured_system_inv scenario_system \<and>
   length (matrixformfull_model (\<lambda>M r c. 0) scenario_system) = 6 \<and>
   block_at 2 0 0 (matrixformfull_model (\<lambda>M r c. 0) scenario_system) = [[1, 0], [0, 1]] \<and>
   block_at 2 1 1 (matrixformfull_model (\<lambda>M r c. 0) scenario_system) = [[1, 0], [0, 1]]"
proof -
  have inv: "structured_system_inv scenario_system"
    by (simp add: structured_system_inv_def scenario_system_def is_block_def)
  have idx: "(0::nat) < sys_N scenario_system" "(1::nat) < sys_N scenario_system"
    by (simp_all add: scenario_system_def)
  from matrixformfull_square_diag [OF inv, of "\<lambda>M r c. 0"] idx
  have "length (matrixformfull_model (\<lambda>M r c. 0) scenario_system) =
          sys_N scenario_system * sys_ds scenario_system
            + sys_dc scenario_system * sys_ds scenario_system"
    and "block_at (sys_ds scenario_system) 0 0 (matrixformfull_model (\<lambda>M r c. 0) scenario_system) =
          sys_G scenario_system ! 0"
    and "block_at (sys_ds scenario_system) 1 1 (matrixformfull_model (\<lambda>M r c. 0) scenario_system) =
          sys_G scenario_system ! 1"
    by blast+
  then show ?thesis using inv by (simp add: scenario_system_def)
qed

end
